theory Spec2Isabelle
  imports Main
begin

text \<open>
  The WeChat service of the repository: five operations, each of which builds a
  URL, hands one request to the HTTP transport and translates what comes back.
  The transport, the environment, the HTTP error helper and the HMAC primitive
  are parameters of the model; the operations return what the promise settles
  with together with the requests they sent.
\<close>

section \<open>JavaScript values\<close>

text \<open>
  The values that travel through the service: the parsed body of a response
  (\<open>response.data\<close>), the body of a request (\<open>data\<close>) and the properties of the
  configuration object. Numbers are the integers that occur in the payloads
  (\<open>errcode\<close>, \<open>expires_in\<close>); an object is the list of its own properties.
\<close>

datatype json =
    JUndefined
  | JNull
  | JBool bool
  | JNum int
  | JStr string
  | JArr "json list"
  | JObj "(string \<times> json) list"

text \<open>
  What a \<open>catch\<close> clause can receive: the rejection of the transport, a
  \<open>TypeError\<close> of the language, or the error object built by \<open>httpError\<close>.
\<close>

datatype js_error =
    TransportError string
  | TypeError string
  | HttpError int string "js_error option"

subsection \<open>Property access\<close>

definition obj_get :: "(string \<times> json) list \<Rightarrow> string \<Rightarrow> json" where
  "obj_get props name = (case map_of props name of None \<Rightarrow> JUndefined | Some v \<Rightarrow> v)"

text \<open>
  \<open>v.name\<close> for a name that no prototype defines (the service reads
  \<open>key_info_list\<close> only): reading a property of \<open>undefined\<close> or \<open>null\<close> throws,
  a primitive or an array has no such property.
\<close>

fun get_prop :: "json \<Rightarrow> string \<Rightarrow> js_error + json" where
  "get_prop JUndefined name = Inl (TypeError (''Cannot read properties of undefined (reading '' @ name @ '')''))"
| "get_prop JNull name = Inl (TypeError (''Cannot read properties of null (reading '' @ name @ '')''))"
| "get_prop (JObj props) name = Inr (obj_get props name)"
| "get_prop v name = Inr JUndefined"

text \<open>\<open>v[0]\<close>: the first element of an array, the first character of a string,
  the property \<open>0\<close> of an object; absent elements read as \<open>undefined\<close>.\<close>

fun get_index0 :: "json \<Rightarrow> js_error + json" where
  "get_index0 JUndefined = Inl (TypeError ''Cannot read properties of undefined (reading 0)'')"
| "get_index0 JNull = Inl (TypeError ''Cannot read properties of null (reading 0)'')"
| "get_index0 (JArr xs) = Inr (case xs of [] \<Rightarrow> JUndefined | x # _ \<Rightarrow> x)"
| "get_index0 (JStr s) = Inr (case s of [] \<Rightarrow> JUndefined | c # _ \<Rightarrow> JStr [c])"
| "get_index0 (JObj props) = Inr (obj_get props ''0'')"
| "get_index0 v = Inr JUndefined"

subsection \<open>Template literals\<close>

fun string_of_nat :: "nat \<Rightarrow> string" where
  "string_of_nat n =
     (if n < 10 then [''0123456789'' ! n]
      else string_of_nat (n div 10) @ [''0123456789'' ! (n mod 10)])"

declare string_of_nat.simps [simp del]

definition string_of_int :: "int \<Rightarrow> string" where
  "string_of_int i =
     (if i < 0 then CHR ''-'' # string_of_nat (nat (- i)) else string_of_nat (nat i))"

fun join :: "string \<Rightarrow> string list \<Rightarrow> string" where
  "join sep [] = []"
| "join sep [x] = x"
| "join sep (x # y # ys) = x @ sep @ join sep (y # ys)"

text \<open>The string a value is interpolated as in a template literal \<open>`...${v}...`\<close>.\<close>

fun to_string :: "json \<Rightarrow> string" where
  "to_string JUndefined = ''undefined''"
| "to_string JNull = ''null''"
| "to_string (JBool b) = (if b then ''true'' else ''false'')"
| "to_string (JNum n) = string_of_int n"
| "to_string (JStr s) = s"
| "to_string (JArr xs) =
     join '','' (map (\<lambda>x. case x of JUndefined \<Rightarrow> [] | JNull \<Rightarrow> [] | _ \<Rightarrow> to_string x) xs)"
| "to_string (JObj props) = ''[object Object]''"

section \<open>Configuration: \<open>modules/vars.js\<close>\<close>

text \<open>The process environment after \<open>dotenv.config()\<close>: a variable is a string or absent.\<close>

type_synonym env = "string \<rightharpoonup> string"

text \<open>\<open>process.env.NAME ?? dflt\<close>\<close>

definition env_or :: "env \<Rightarrow> string \<Rightarrow> string \<Rightarrow> json" where
  "env_or env name dflt = (case env name of None \<Rightarrow> JStr dflt | Some v \<Rightarrow> JStr v)"

definition VARS :: "env \<Rightarrow> (string \<times> json) list" where
  "VARS env =
     [(''APP_CONTEXT'', JStr ''''),
      (''IOT_API_ENDPOINT'', env_or env ''IOT_API_ENDPOINT'' ''https://openapi.tuyacn.com''),
      (''IOT_CLIENT_ID'', env_or env ''IOT_CLIENT_ID'' ''''),
      (''IOT_CLIENT_SECRET'', env_or env ''IOT_CLIENT_SECRET'' '''')]"

section \<open>Collaborators outside the sources\<close>

text \<open>
  Modelled from the spec: \<open>http-manager.js\<close> (\<open>httpCodes\<close>, \<open>httpMessages\<close>,
  \<open>httpError\<close>) is not among the sources. The spec names one failure kind, "bad
  request", that carries the triggering cause, and a transport status "OK". The
  two status codes and the message are kept as parameters of the service; the
  error object records the code, the message and the cause it was built from
  (no cause when the third argument is left out).
\<close>

record http_manager =
  httpCodes_OK :: int
  httpCodes_BAD_REQUEST :: int
  httpMessages_BAD_REQUEST :: string

definition httpError :: "int \<Rightarrow> string \<Rightarrow> js_error option \<Rightarrow> js_error" where
  "httpError code message cause = HttpError code message cause"

text \<open>
  Modelled from the spec: \<open>services/utility.js\<close> (\<open>utilityService.sign\<close>) is not
  among the sources. The spec's Signer: \<open>sign(message, key)\<close> computes an HMAC
  with SHA-256 over \<open>message\<close> keyed by \<open>key\<close> and returns the digest in
  hexadecimal; it is pure and stateless. The HMAC primitive of the platform's
  crypto library is a parameter (key first, then message, giving the digest's
  bytes); the hexadecimal encoding is written out.
\<close>

type_synonym hmac_sha256 = "string \<Rightarrow> string \<Rightarrow> nat list"

definition hex_digit :: "nat \<Rightarrow> char" where
  "hex_digit d = ''0123456789abcdef'' ! (d mod 16)"

definition hex_byte :: "nat \<Rightarrow> string" where
  "hex_byte b = [hex_digit (b div 16), hex_digit b]"

definition sign :: "hmac_sha256 \<Rightarrow> string \<Rightarrow> string \<Rightarrow> string" where
  "sign hmac message key = concat (map hex_byte (hmac key message))"

section \<open>The transport\<close>

text \<open>
  \<open>axios(url, config)\<close>: the configuration as the service writes it (\<open>method\<close>
  and \<open>data\<close> are optional), and what the awaited call gives: a response with
  its status and parsed body (\<open>response.data\<close>, the field \<open>body\<close> here), or a
  rejection.
\<close>

record axios_config =
  "method" :: "string option"
  data :: "json option"
  headers :: "(string \<times> string) list"

record request =
  url :: string
  config :: axios_config

record response =
  status :: int
  body :: json

type_synonym axios = "request \<Rightarrow> js_error + response"

text \<open>What a call of an operation does: the value the promise settles with
  (\<open>Inl\<close> when it rejects) and the requests handed to the transport, in order.\<close>

record outcome =
  settled :: "js_error + json"
  sent :: "request list"

section \<open>\<open>WeChatService\<close>\<close>

definition json_headers :: "(string \<times> string) list" where
  "json_headers = [(''Content-Type'', ''application/json'')]"

definition bad_request :: "http_manager \<Rightarrow> js_error option \<Rightarrow> js_error" where
  "bad_request hm cause =
     httpError (httpCodes_BAD_REQUEST hm) (httpMessages_BAD_REQUEST hm) cause"

subsection \<open>obtainAccessToken\<close>

definition obtainAccessToken_request :: "(string \<times> json) list \<Rightarrow> request" where
  "obtainAccessToken_request vars =
     \<lparr>url = ''https://api.weixin.qq.com/cgi-bin/token?grant_type=client_credential&appid=''
              @ to_string (obj_get vars ''APP_ID'')
              @ ''&secret='' @ to_string (obj_get vars ''APP_SECRET''),
      config = \<lparr>method = None, data = None, headers = json_headers\<rparr>\<rparr>"

definition obtainAccessToken :: "http_manager \<Rightarrow> (string \<times> json) list \<Rightarrow> axios \<Rightarrow> outcome" where
  "obtainAccessToken hm vars ax =
     (let req = obtainAccessToken_request vars in
      case ax req of
        Inr response \<Rightarrow> \<lparr>settled = Inr (body response), sent = [req]\<rparr>
      | Inl error \<Rightarrow> \<lparr>settled = Inl (bad_request hm (Some error)), sent = [req]\<rparr>)"

subsection \<open>obtainTelephone\<close>

definition obtainTelephone_request :: "string \<Rightarrow> string \<Rightarrow> string \<Rightarrow> request" where
  "obtainTelephone_request accessToken code openid =
     \<lparr>url = ''https://api.weixin.qq.com/wxa/business/getuserphonenumber?access_token=''
              @ accessToken,
      config = \<lparr>method = Some ''POST'',
                data = Some (JObj [(''code'', JStr code), (''openid'', JStr openid)]),
                headers = json_headers\<rparr>\<rparr>"

definition obtainTelephone :: "http_manager \<Rightarrow> axios \<Rightarrow> string \<Rightarrow> string \<Rightarrow> string \<Rightarrow> outcome" where
  "obtainTelephone hm ax accessToken code openid =
     (let req = obtainTelephone_request accessToken code openid in
      case ax req of
        Inr response \<Rightarrow> \<lparr>settled = Inr (body response), sent = [req]\<rparr>
      | Inl error \<Rightarrow> \<lparr>settled = Inl (bad_request hm (Some error)), sent = [req]\<rparr>)"

subsection \<open>obtainOpenId\<close>

definition obtainOpenId_request :: "(string \<times> json) list \<Rightarrow> string \<Rightarrow> request" where
  "obtainOpenId_request vars code =
     \<lparr>url = ''https://api.weixin.qq.com/sns/jscode2session?appid=''
              @ to_string (obj_get vars ''APP_ID'')
              @ ''&secret='' @ to_string (obj_get vars ''APP_SECRET'')
              @ ''&js_code='' @ code @ ''&grant_type=authorization_code'',
      config = \<lparr>method = None, data = None, headers = json_headers\<rparr>\<rparr>"

definition obtainOpenId :: "http_manager \<Rightarrow> (string \<times> json) list \<Rightarrow> axios \<Rightarrow> string \<Rightarrow> outcome" where
  "obtainOpenId hm vars ax code =
     (let req = obtainOpenId_request vars code in
      case ax req of
        Inr response \<Rightarrow> \<lparr>settled = Inr (body response), sent = [req]\<rparr>
      | Inl error \<Rightarrow> \<lparr>settled = Inl (bad_request hm (Some error)), sent = [req]\<rparr>)"

subsection \<open>verifySession\<close>

definition verifySession_request :: "hmac_sha256 \<Rightarrow> string \<Rightarrow> string \<Rightarrow> string \<Rightarrow> request" where
  "verifySession_request hmac openId accessToken sessionKey =
     (let signature = sign hmac '''' sessionKey in
      \<lparr>url = ''https://api.weixin.qq.com/wxa/checksession?access_token=='' @ accessToken
               @ ''&openid='' @ openId @ ''&signature='' @ signature
               @ ''&sig_method=hmac_sha256'',
       config = \<lparr>method = Some ''GET'', data = None, headers = json_headers\<rparr>\<rparr>)"

definition verifySession ::
  "http_manager \<Rightarrow> hmac_sha256 \<Rightarrow> axios \<Rightarrow> string \<Rightarrow> string \<Rightarrow> string \<Rightarrow> outcome" where
  "verifySession hm hmac ax openId accessToken sessionKey =
     (let req = verifySession_request hmac openId accessToken sessionKey in
      case ax req of
        Inr response \<Rightarrow> \<lparr>settled = Inr (body response), sent = [req]\<rparr>
      | Inl error \<Rightarrow> \<lparr>settled = Inl (bad_request hm (Some error)), sent = [req]\<rparr>)"

subsection \<open>fetchUser\<close>

definition fetchUser_request :: "hmac_sha256 \<Rightarrow> string \<Rightarrow> string \<Rightarrow> string \<Rightarrow> request" where
  "fetchUser_request hmac openId accessToken sessionKey =
     (let signature = sign hmac '''' sessionKey in
      \<lparr>url = ''https://api.weixin.qq.com/wxa/getuserencryptkey?access_token=='' @ accessToken
               @ ''&openid='' @ openId @ ''&signature='' @ signature
               @ ''&sig_method=hmac_sha256'',
       config = \<lparr>method = Some ''GET'', data = None, headers = json_headers\<rparr>\<rparr>)"

text \<open>The body of the \<open>try\<close> block once the response has arrived: \<open>Inl\<close> is a throw.\<close>

definition fetchUser_try :: "http_manager \<Rightarrow> response \<Rightarrow> js_error + json" where
  "fetchUser_try hm response =
     (if status response = httpCodes_OK hm then
        (let payload = body response in
         case get_prop payload ''key_info_list'' of
           Inl error \<Rightarrow> Inl error
         | Inr key_info_list \<Rightarrow>
             (case get_index0 key_info_list of
                Inl error \<Rightarrow> Inl error
              | Inr encryptedKey \<Rightarrow> Inr payload))
      else Inl (bad_request hm None))"

definition fetchUser ::
  "http_manager \<Rightarrow> hmac_sha256 \<Rightarrow> axios \<Rightarrow> string \<Rightarrow> string \<Rightarrow> string \<Rightarrow> outcome" where
  "fetchUser hm hmac ax openId accessToken sessionKey =
     (let req = fetchUser_request hmac openId accessToken sessionKey in
      case (case ax req of Inl error \<Rightarrow> Inl error | Inr response \<Rightarrow> fetchUser_try hm response) of
        Inr payload \<Rightarrow> \<lparr>settled = Inr payload, sent = [req]\<rparr>
      | Inl error \<Rightarrow> \<lparr>settled = Inl (bad_request hm (Some error)), sent = [req]\<rparr>)"

section \<open>Observing requests and payloads\<close>

text \<open>
  How the receiver of a URL reads its query: the part after the first \<open>?\<close> and
  before a \<open>#\<close>, cut at every \<open>&\<close>, each piece cut at its first \<open>=\<close> into a
  name and a value.
\<close>

definition before_char :: "char \<Rightarrow> string \<Rightarrow> string" where
  "before_char c s = takeWhile (\<lambda>x. x \<noteq> c) s"

definition after_char :: "char \<Rightarrow> string \<Rightarrow> string" where
  "after_char c s = drop 1 (dropWhile (\<lambda>x. x \<noteq> c) s)"

fun split_on :: "char \<Rightarrow> string \<Rightarrow> string list" where
  "split_on c [] = [[]]"
| "split_on c (x # xs) =
     (if x = c then [] # split_on c xs
      else (case split_on c xs of [] \<Rightarrow> [[x]] | w # ws \<Rightarrow> (x # w) # ws))"

definition query_of :: "string \<Rightarrow> string" where
  "query_of u = before_char CHR ''#'' (after_char CHR ''?'' u)"

definition query_params :: "string \<Rightarrow> (string \<times> string) list" where
  "query_params u =
     map (\<lambda>p. (before_char CHR ''='' p, after_char CHR ''='' p)) (split_on CHR ''&'' (query_of u))"

text \<open>A value can be interpolated into a query without changing how the query is
  cut when it has no \<open>&\<close> and no \<open>#\<close>.\<close>

definition query_safe :: "string \<Rightarrow> bool" where
  "query_safe s = (CHR ''&'' \<notin> set s \<and> CHR ''#'' \<notin> set s)"

text \<open>
  Modelled from the spec: \<open>models/wechat.js\<close> (the payload classes) is not among
  the sources. The spec gives every payload an optional error code; a payload
  carries an error code indicating failure when it is an object whose
  \<open>errcode\<close> is a number other than zero.
\<close>

definition errcode_failure :: "json \<Rightarrow> bool" where
  "errcode_failure payload =
     (case payload of
        JObj props \<Rightarrow> (case map_of props ''errcode'' of Some (JNum n) \<Rightarrow> n \<noteq> 0 | _ \<Rightarrow> False)
      | _ \<Rightarrow> False)"

text \<open>A transport that answers every request with the same response, and one that
  rejects every request with the same error.\<close>

definition reply_with :: "response \<Rightarrow> axios" where
  "reply_with r req = Inr r"

definition reject_with :: "js_error \<Rightarrow> axios" where
  "reject_with e req = Inl e"

text \<open>\<open>payload.key_info_list[0]\<close>, as \<open>fetchUser\<close> reads it.\<close>

definition first_key_info :: "json \<Rightarrow> js_error + json" where
  "first_key_info payload =
     (case get_prop payload ''key_info_list'' of Inl e \<Rightarrow> Inl e | Inr l \<Rightarrow> get_index0 l)"

text \<open>The two halves of a request's URL: the endpoint before the first \<open>?\<close> and
  the query string after it, as written.\<close>

definition endpoint :: "request \<Rightarrow> string" where
  "endpoint req = before_char CHR ''?'' (url req)"

definition query_string :: "request \<Rightarrow> string" where
  "query_string req = after_char CHR ''?'' (url req)"

text \<open>An \<open>IOT_*\<close> variable is a field whose name starts with \<open>IOT_\<close>.\<close>

definition is_IOT_variable :: "string \<Rightarrow> bool" where
  "is_IOT_variable name = (take 4 name = ''IOT_'')"

section \<open>Example inputs\<close>

definition hm0 :: http_manager where
  "hm0 = \<lparr>httpCodes_OK = 200, httpCodes_BAD_REQUEST = 400,
           httpMessages_BAD_REQUEST = ''Bad Request''\<rparr>"

definition hmac0 :: hmac_sha256 where
  "hmac0 key message = [length key, 171]"

definition no_env :: env where
  "no_env name = None"

definition refused :: js_error where
  "refused = TransportError ''connect ECONNREFUSED''"

definition invalid_appid :: json where
  "invalid_appid = JObj [(''errcode'', JNum 40013), (''errmsg'', JStr ''invalid appid'')]"

definition key1 :: json where
  "key1 = JObj [(''encrypt_key'', JStr ''k1''), (''version'', JNum 1)]"

definition key2 :: json where
  "key2 = JObj [(''encrypt_key'', JStr ''k2''), (''version'', JNum 2)]"

definition profile :: json where
  "profile = JObj [(''errcode'', JNum 0), (''key_info_list'', JArr [key1, key2])]"

definition empty_profile :: json where
  "empty_profile = JObj [(''errcode'', JNum 0), (''key_info_list'', JArr [])]"

definition failed_profile :: json where
  "failed_profile = JObj [(''errcode'', JNum 40001), (''key_info_list'', JArr [key1])]"

section \<open>Facts about the operations\<close>

subsection \<open>One request per call\<close>

lemma obtainAccessToken_sent:
  "sent (obtainAccessToken hm vars ax) = [obtainAccessToken_request vars]"
  by (simp add: obtainAccessToken_def Let_def split: sum.split)

lemma obtainOpenId_sent:
  "sent (obtainOpenId hm vars ax code) = [obtainOpenId_request vars code]"
  by (simp add: obtainOpenId_def Let_def split: sum.split)

lemma obtainTelephone_sent:
  "sent (obtainTelephone hm ax accessToken code openid)
     = [obtainTelephone_request accessToken code openid]"
  by (simp add: obtainTelephone_def Let_def split: sum.split)

lemma verifySession_sent:
  "sent (verifySession hm hmac ax openId accessToken sessionKey)
     = [verifySession_request hmac openId accessToken sessionKey]"
  by (simp add: verifySession_def Let_def split: sum.split)

lemma fetchUser_sent:
  "sent (fetchUser hm hmac ax openId accessToken sessionKey)
     = [fetchUser_request hmac openId accessToken sessionKey]"
  by (simp add: fetchUser_def Let_def split: sum.split)

subsection \<open>A rejected request\<close>

lemma obtainAccessToken_rejected:
  "ax (obtainAccessToken_request vars) = Inl e \<Longrightarrow>
   settled (obtainAccessToken hm vars ax) = Inl (bad_request hm (Some e))"
  by (simp add: obtainAccessToken_def Let_def)

lemma obtainOpenId_rejected:
  "ax (obtainOpenId_request vars code) = Inl e \<Longrightarrow>
   settled (obtainOpenId hm vars ax code) = Inl (bad_request hm (Some e))"
  by (simp add: obtainOpenId_def Let_def)

lemma obtainTelephone_rejected:
  "ax (obtainTelephone_request accessToken code openid) = Inl e \<Longrightarrow>
   settled (obtainTelephone hm ax accessToken code openid) = Inl (bad_request hm (Some e))"
  by (simp add: obtainTelephone_def Let_def)

lemma verifySession_rejected:
  "ax (verifySession_request hmac openId accessToken sessionKey) = Inl e \<Longrightarrow>
   settled (verifySession hm hmac ax openId accessToken sessionKey)
     = Inl (bad_request hm (Some e))"
  by (simp add: verifySession_def Let_def)

lemma fetchUser_rejected:
  "ax (fetchUser_request hmac openId accessToken sessionKey) = Inl e \<Longrightarrow>
   settled (fetchUser hm hmac ax openId accessToken sessionKey) = Inl (bad_request hm (Some e))"
  by (simp add: fetchUser_def Let_def)

subsection \<open>An answered request\<close>

lemma obtainAccessToken_resolved:
  "ax (obtainAccessToken_request vars) = Inr response \<Longrightarrow>
   settled (obtainAccessToken hm vars ax) = Inr (body response)"
  by (simp add: obtainAccessToken_def Let_def)

lemma obtainOpenId_resolved:
  "ax (obtainOpenId_request vars code) = Inr response \<Longrightarrow>
   settled (obtainOpenId hm vars ax code) = Inr (body response)"
  by (simp add: obtainOpenId_def Let_def)

lemma obtainTelephone_resolved:
  "ax (obtainTelephone_request accessToken code openid) = Inr response \<Longrightarrow>
   settled (obtainTelephone hm ax accessToken code openid) = Inr (body response)"
  by (simp add: obtainTelephone_def Let_def)

lemma verifySession_resolved:
  "ax (verifySession_request hmac openId accessToken sessionKey) = Inr response \<Longrightarrow>
   settled (verifySession hm hmac ax openId accessToken sessionKey) = Inr (body response)"
  by (simp add: verifySession_def Let_def)

lemma fetchUser_not_OK:
  "ax (fetchUser_request hmac openId accessToken sessionKey) = Inr response \<Longrightarrow>
   status response \<noteq> httpCodes_OK hm \<Longrightarrow>
   settled (fetchUser hm hmac ax openId accessToken sessionKey)
     = Inl (bad_request hm (Some (bad_request hm None)))"
  by (simp add: fetchUser_def fetchUser_try_def Let_def)

lemma fetchUser_OK:
  "ax (fetchUser_request hmac openId accessToken sessionKey) = Inr response \<Longrightarrow>
   status response = httpCodes_OK hm \<Longrightarrow>
   settled (fetchUser hm hmac ax openId accessToken sessionKey) =
     (case first_key_info (body response) of
        Inl e \<Rightarrow> Inl (bad_request hm (Some e))
      | Inr k \<Rightarrow> Inr (body response))"
  by (simp add: fetchUser_def fetchUser_try_def first_key_info_def Let_def split: sum.split)

section \<open>Failure translation\<close>

text \<open>
  Claim C1, as stated, fails: a payload whose error code indicates failure is
  handed to the caller as the successful result. The transport answers with
  status 200 and the body \<open>{errcode: 40013, errmsg: "invalid appid"}\<close>, and
  \<open>obtainAccessToken\<close>, \<open>obtainOpenId\<close> and \<open>obtainTelephone\<close> resolve with that
  body; \<open>fetchUser\<close> resolves with a body whose \<open>errcode\<close> is 40001 as long as it
  has a \<open>key_info_list\<close>.
\<close>

theorem error_payload_is_failure_counterexample:
  "errcode_failure invalid_appid
   \<and> settled (obtainAccessToken hm0 (VARS no_env)
         (reply_with \<lparr>status = 200, body = invalid_appid\<rparr>)) = Inr invalid_appid
   \<and> settled (obtainOpenId hm0 (VARS no_env)
         (reply_with \<lparr>status = 200, body = invalid_appid\<rparr>) ''test-code'') = Inr invalid_appid
   \<and> settled (obtainTelephone hm0 (reply_with \<lparr>status = 200, body = invalid_appid\<rparr>)
         ''token-1'' ''test-code'' ''oid-1'') = Inr invalid_appid
   \<and> errcode_failure failed_profile
   \<and> settled (fetchUser hm0 hmac0 (reply_with \<lparr>status = 200, body = failed_profile\<rparr>)
         ''oid-1'' ''token-1'' ''sk-1'') = Inr failed_profile"
  by (simp add: errcode_failure_def invalid_appid_def failed_profile_def reply_with_def
      obtainAccessToken_resolved obtainOpenId_resolved obtainTelephone_resolved
      fetchUser_OK hm0_def first_key_info_def obj_get_def)

text \<open>
  Claim C1, amended: no operation looks at the error code of a payload. Whenever
  the transport answers, \<open>obtainAccessToken\<close>, \<open>obtainOpenId\<close>, \<open>obtainTelephone\<close>
  and \<open>verifySession\<close> resolve with the body of the response, whatever it is;
  \<open>fetchUser\<close>, when the status is OK, resolves with the body if
  \<open>payload.key_info_list[0]\<close> can be read and fails with bad-request, carrying the
  \<open>TypeError\<close>, if it cannot.
\<close>

theorem payload_returned_whatever_errcode:
  "(ax (obtainAccessToken_request vars) = Inr response \<longrightarrow>
      settled (obtainAccessToken hm vars ax) = Inr (body response))
   \<and> (ax (obtainOpenId_request vars code) = Inr response \<longrightarrow>
      settled (obtainOpenId hm vars ax code) = Inr (body response))
   \<and> (ax (obtainTelephone_request accessToken code openid) = Inr response \<longrightarrow>
      settled (obtainTelephone hm ax accessToken code openid) = Inr (body response))
   \<and> (ax (verifySession_request hmac openId accessToken sessionKey) = Inr response \<longrightarrow>
      settled (verifySession hm hmac ax openId accessToken sessionKey) = Inr (body response))
   \<and> (ax (fetchUser_request hmac openId accessToken sessionKey) = Inr response
        \<and> status response = httpCodes_OK hm \<longrightarrow>
      settled (fetchUser hm hmac ax openId accessToken sessionKey)
        = (case first_key_info (body response) of
             Inl e \<Rightarrow> Inl (bad_request hm (Some e))
           | Inr k \<Rightarrow> Inr (body response)))"
  by (simp add: obtainAccessToken_resolved obtainOpenId_resolved obtainTelephone_resolved
      verifySession_resolved fetchUser_OK)

text \<open>The amended claim C1 at a response with status 200 whose body has the error
  code 40001 and one key-info entry: all five operations resolve with that body.\<close>

theorem payload_returned_whatever_errcode_witness:
  "errcode_failure failed_profile
   \<and> reply_with \<lparr>status = 200, body = failed_profile\<rparr> (obtainAccessToken_request (VARS no_env))
        = Inr \<lparr>status = 200, body = failed_profile\<rparr>
   \<and> settled (obtainAccessToken hm0 (VARS no_env)
         (reply_with \<lparr>status = 200, body = failed_profile\<rparr>)) = Inr failed_profile
   \<and> settled (obtainOpenId hm0 (VARS no_env)
         (reply_with \<lparr>status = 200, body = failed_profile\<rparr>) ''test-code'') = Inr failed_profile
   \<and> settled (obtainTelephone hm0 (reply_with \<lparr>status = 200, body = failed_profile\<rparr>)
         ''token-1'' ''test-code'' ''oid-1'') = Inr failed_profile
   \<and> settled (verifySession hm0 hmac0 (reply_with \<lparr>status = 200, body = failed_profile\<rparr>)
         ''oid-1'' ''token-1'' ''sk-1'') = Inr failed_profile
   \<and> status \<lparr>status = 200, body = failed_profile\<rparr> = httpCodes_OK hm0
   \<and> settled (fetchUser hm0 hmac0 (reply_with \<lparr>status = 200, body = failed_profile\<rparr>)
         ''oid-1'' ''token-1'' ''sk-1'') = Inr failed_profile"
  using payload_returned_whatever_errcode
    [where ax = "reply_with \<lparr>status = 200, body = failed_profile\<rparr>"
       and response = "\<lparr>status = 200, body = failed_profile\<rparr>" and vars = "VARS no_env"
       and hm = hm0 and hmac = hmac0 and code = "''test-code''" and openid = "''oid-1''"
       and openId = "''oid-1''" and accessToken = "''token-1''" and sessionKey = "''sk-1''"]
  by (simp add: reply_with_def hm0_def errcode_failure_def failed_profile_def
      first_key_info_def obj_get_def)

text \<open>
  Claim C3: when the transport answers \<open>fetchUser\<close> with a status other than OK,
  the call fails with the bad-request error (whose cause is the bad-request
  error thrown inside the \<open>try\<close> block), and it does so for every body the
  response may have: the status is compared before the body is read.
\<close>

theorem fetchUser_status_checked_first:
  assumes "ax (fetchUser_request hmac openId accessToken sessionKey) = Inr response"
    and "status response \<noteq> httpCodes_OK hm"
  shows "settled (fetchUser hm hmac ax openId accessToken sessionKey)
           = Inl (bad_request hm (Some (bad_request hm None)))
         \<and> (\<forall>b. fetchUser_try hm (response\<lparr>body := b\<rparr>) = Inl (bad_request hm None))"
  using assms by (simp add: fetchUser_not_OK fetchUser_try_def)

text \<open>Claim C3 at status 404 with a well-formed profile as the body.\<close>

theorem fetchUser_status_checked_first_witness:
  "reply_with \<lparr>status = 404, body = profile\<rparr>
       (fetchUser_request hmac0 ''oid-1'' ''token-1'' ''sk-1'')
     = Inr \<lparr>status = 404, body = profile\<rparr>
   \<and> status \<lparr>status = 404, body = profile\<rparr> \<noteq> httpCodes_OK hm0
   \<and> settled (fetchUser hm0 hmac0 (reply_with \<lparr>status = 404, body = profile\<rparr>)
         ''oid-1'' ''token-1'' ''sk-1'')
       = Inl (HttpError 400 ''Bad Request'' (Some (HttpError 400 ''Bad Request'' None)))"
  using fetchUser_status_checked_first
    [where ax = "reply_with \<lparr>status = 404, body = profile\<rparr>"
       and response = "\<lparr>status = 404, body = profile\<rparr>"
       and hm = hm0 and hmac = hmac0 and openId = "''oid-1''" and accessToken = "''token-1''"
       and sessionKey = "''sk-1''"]
  by (simp add: reply_with_def hm0_def bad_request_def httpError_def)

text \<open>
  Claim C5: every operation turns a rejection of the transport into the
  bad-request error with the rejection as its cause, and \<open>fetchUser\<close> turns a
  status other than OK into the bad-request error whose cause is the error
  thrown for the status; the error has the same code and message in every
  operation, and every call hands exactly one request to the transport.
\<close>

theorem uniform_bad_request:
  "(ax (obtainAccessToken_request vars) = Inl e \<longrightarrow>
      settled (obtainAccessToken hm vars ax) = Inl (bad_request hm (Some e)))
   \<and> (ax (obtainOpenId_request vars code) = Inl e \<longrightarrow>
      settled (obtainOpenId hm vars ax code) = Inl (bad_request hm (Some e)))
   \<and> (ax (obtainTelephone_request accessToken code openid) = Inl e \<longrightarrow>
      settled (obtainTelephone hm ax accessToken code openid) = Inl (bad_request hm (Some e)))
   \<and> (ax (verifySession_request hmac openId accessToken sessionKey) = Inl e \<longrightarrow>
      settled (verifySession hm hmac ax openId accessToken sessionKey)
        = Inl (bad_request hm (Some e)))
   \<and> (ax (fetchUser_request hmac openId accessToken sessionKey) = Inl e \<longrightarrow>
      settled (fetchUser hm hmac ax openId accessToken sessionKey)
        = Inl (bad_request hm (Some e)))
   \<and> (ax (fetchUser_request hmac openId accessToken sessionKey) = Inr response
        \<and> status response \<noteq> httpCodes_OK hm \<longrightarrow>
      settled (fetchUser hm hmac ax openId accessToken sessionKey)
        = Inl (bad_request hm (Some (bad_request hm None))))
   \<and> bad_request hm cause
        = HttpError (httpCodes_BAD_REQUEST hm) (httpMessages_BAD_REQUEST hm) cause
   \<and> length (sent (obtainAccessToken hm vars ax)) = 1
   \<and> length (sent (obtainOpenId hm vars ax code)) = 1
   \<and> length (sent (obtainTelephone hm ax accessToken code openid)) = 1
   \<and> length (sent (verifySession hm hmac ax openId accessToken sessionKey)) = 1
   \<and> length (sent (fetchUser hm hmac ax openId accessToken sessionKey)) = 1"
  by (simp add: obtainAccessToken_rejected obtainOpenId_rejected obtainTelephone_rejected
      verifySession_rejected fetchUser_rejected fetchUser_not_OK
      obtainAccessToken_sent obtainOpenId_sent obtainTelephone_sent verifySession_sent
      fetchUser_sent bad_request_def httpError_def)

text \<open>Claim C5 at a transport that refuses the connection, and at one that answers
  \<open>fetchUser\<close> with status 500.\<close>

theorem uniform_bad_request_witness:
  "reject_with refused (obtainAccessToken_request (VARS no_env)) = Inl refused
   \<and> settled (obtainAccessToken hm0 (VARS no_env) (reject_with refused))
        = Inl (HttpError 400 ''Bad Request'' (Some refused))
   \<and> reject_with refused (obtainOpenId_request (VARS no_env) ''test-code'') = Inl refused
   \<and> settled (obtainOpenId hm0 (VARS no_env) (reject_with refused) ''test-code'')
        = Inl (HttpError 400 ''Bad Request'' (Some refused))
   \<and> reject_with refused (obtainTelephone_request ''token-1'' ''test-code'' ''oid-1'')
        = Inl refused
   \<and> settled (obtainTelephone hm0 (reject_with refused) ''token-1'' ''test-code'' ''oid-1'')
        = Inl (HttpError 400 ''Bad Request'' (Some refused))
   \<and> reject_with refused (verifySession_request hmac0 ''oid-1'' ''token-1'' ''sk-1'')
        = Inl refused
   \<and> settled (verifySession hm0 hmac0 (reject_with refused) ''oid-1'' ''token-1'' ''sk-1'')
        = Inl (HttpError 400 ''Bad Request'' (Some refused))
   \<and> reject_with refused (fetchUser_request hmac0 ''oid-1'' ''token-1'' ''sk-1'') = Inl refused
   \<and> settled (fetchUser hm0 hmac0 (reject_with refused) ''oid-1'' ''token-1'' ''sk-1'')
        = Inl (HttpError 400 ''Bad Request'' (Some refused))
   \<and> reply_with \<lparr>status = 500, body = profile\<rparr>
        (fetchUser_request hmac0 ''oid-1'' ''token-1'' ''sk-1'')
        = Inr \<lparr>status = 500, body = profile\<rparr>
   \<and> status \<lparr>status = 500, body = profile\<rparr> \<noteq> httpCodes_OK hm0
   \<and> settled (fetchUser hm0 hmac0 (reply_with \<lparr>status = 500, body = profile\<rparr>)
         ''oid-1'' ''token-1'' ''sk-1'')
        = Inl (HttpError 400 ''Bad Request'' (Some (HttpError 400 ''Bad Request'' None)))"
  using uniform_bad_request
    [where ax = "reject_with refused" and e = refused and vars = "VARS no_env"
       and hm = hm0 and hmac = hmac0 and code = "''test-code''" and openid = "''oid-1''"
       and openId = "''oid-1''" and accessToken = "''token-1''" and sessionKey = "''sk-1''"]
    uniform_bad_request
    [where ax = "reply_with \<lparr>status = 500, body = profile\<rparr>"
       and response = "\<lparr>status = 500, body = profile\<rparr>"
       and hm = hm0 and hmac = hmac0 and openId = "''oid-1''" and accessToken = "''token-1''"
       and sessionKey = "''sk-1''"]
  by (simp add: reject_with_def reply_with_def hm0_def)

section \<open>The key-info list\<close>

text \<open>
  Claim C7: when the transport answers \<open>fetchUser\<close> with status OK and a body
  whose \<open>key_info_list\<close> is a non-empty array, the call resolves with a payload
  (the body itself) whose first key-info entry is the first entry of that array.
\<close>

theorem fetchUser_first_key_info:
  assumes "ax (fetchUser_request hmac openId accessToken sessionKey) = Inr response"
    and "status response = httpCodes_OK hm"
    and "get_prop (body response) ''key_info_list'' = Inr (JArr (k # ks))"
  shows "\<exists>payload. settled (fetchUser hm hmac ax openId accessToken sessionKey) = Inr payload
           \<and> payload = body response \<and> first_key_info payload = Inr k"
  using assms by (simp add: fetchUser_OK first_key_info_def)

text \<open>Claim C7 at a profile with two key-info entries.\<close>

theorem fetchUser_first_key_info_witness:
  "reply_with \<lparr>status = 200, body = profile\<rparr>
       (fetchUser_request hmac0 ''oid-1'' ''token-1'' ''sk-1'')
     = Inr \<lparr>status = 200, body = profile\<rparr>
   \<and> status \<lparr>status = 200, body = profile\<rparr> = httpCodes_OK hm0
   \<and> get_prop (body \<lparr>status = 200, body = profile\<rparr>) ''key_info_list''
       = Inr (JArr [key1, key2])
   \<and> settled (fetchUser hm0 hmac0 (reply_with \<lparr>status = 200, body = profile\<rparr>)
         ''oid-1'' ''token-1'' ''sk-1'') = Inr profile
   \<and> first_key_info profile = Inr key1"
  using fetchUser_first_key_info
    [where ax = "reply_with \<lparr>status = 200, body = profile\<rparr>"
       and response = "\<lparr>status = 200, body = profile\<rparr>"
       and hm = hm0 and hmac = hmac0 and openId = "''oid-1''" and accessToken = "''token-1''"
       and sessionKey = "''sk-1''" and k = key1 and ks = "[key2]"]
  by (simp add: reply_with_def hm0_def profile_def obj_get_def)

text \<open>
  Claim C9: when the transport answers \<open>fetchUser\<close> with status OK and a body
  whose \<open>key_info_list\<close> is the empty array, the call still resolves with the
  body: reading element 0 of the empty array gives \<open>undefined\<close> and throws
  nothing.
\<close>

theorem fetchUser_empty_key_info_list:
  assumes "ax (fetchUser_request hmac openId accessToken sessionKey) = Inr response"
    and "status response = httpCodes_OK hm"
    and "get_prop (body response) ''key_info_list'' = Inr (JArr [])"
  shows "settled (fetchUser hm hmac ax openId accessToken sessionKey) = Inr (body response)
         \<and> first_key_info (body response) = Inr JUndefined"
  using assms by (simp add: fetchUser_OK first_key_info_def)

text \<open>Claim C9 at a profile whose key-info list is empty.\<close>

theorem fetchUser_empty_key_info_list_witness:
  "reply_with \<lparr>status = 200, body = empty_profile\<rparr>
       (fetchUser_request hmac0 ''oid-1'' ''token-1'' ''sk-1'')
     = Inr \<lparr>status = 200, body = empty_profile\<rparr>
   \<and> status \<lparr>status = 200, body = empty_profile\<rparr> = httpCodes_OK hm0
   \<and> get_prop (body \<lparr>status = 200, body = empty_profile\<rparr>) ''key_info_list'' = Inr (JArr [])
   \<and> settled (fetchUser hm0 hmac0 (reply_with \<lparr>status = 200, body = empty_profile\<rparr>)
         ''oid-1'' ''token-1'' ''sk-1'') = Inr empty_profile"
  using fetchUser_empty_key_info_list
    [where ax = "reply_with \<lparr>status = 200, body = empty_profile\<rparr>"
       and response = "\<lparr>status = 200, body = empty_profile\<rparr>"
       and hm = hm0 and hmac = hmac0 and openId = "''oid-1''" and accessToken = "''token-1''"
       and sessionKey = "''sk-1''"]
  by (simp add: reply_with_def hm0_def empty_profile_def obj_get_def)

section \<open>The requests\<close>

subsection \<open>Cutting a query\<close>

lemma split_on_none: "c \<notin> set xs \<Longrightarrow> split_on c xs = [xs]"
  by (induction xs) auto

lemma split_on_append: "c \<notin> set xs \<Longrightarrow> split_on c (xs @ c # ys) = xs # split_on c ys"
  by (induction xs) auto

lemma before_char_none: "c \<notin> set xs \<Longrightarrow> before_char c xs = xs"
  by (auto simp: before_char_def)

lemma hex_digit_in: "hex_digit d \<in> set ''0123456789abcdef''"
  unfolding hex_digit_def by (rule nth_mem) simp

lemma hex_digit_safe: "hex_digit d \<noteq> CHR ''&''" "hex_digit d \<noteq> CHR ''#''"
  using hex_digit_in [of d] by auto

lemma sign_safe: "query_safe (sign hmac m k)"
  unfolding query_safe_def sign_def hex_byte_def by (auto simp: hex_digit_safe[THEN not_sym])

subsection \<open>The URL of each request\<close>

lemma obtainAccessToken_endpoint:
  "endpoint (obtainAccessToken_request vars) = ''https://api.weixin.qq.com/cgi-bin/token''"
  by (simp add: endpoint_def obtainAccessToken_request_def before_char_def)

lemma obtainAccessToken_query:
  "query_string (obtainAccessToken_request vars)
     = ''grant_type=client_credential&appid='' @ to_string (obj_get vars ''APP_ID'')
         @ ''&secret='' @ to_string (obj_get vars ''APP_SECRET'')"
  by (simp add: query_string_def obtainAccessToken_request_def after_char_def)

lemma obtainOpenId_endpoint:
  "endpoint (obtainOpenId_request vars code) = ''https://api.weixin.qq.com/sns/jscode2session''"
  by (simp add: endpoint_def obtainOpenId_request_def before_char_def)

lemma obtainOpenId_query:
  "query_string (obtainOpenId_request vars code)
     = ''appid='' @ to_string (obj_get vars ''APP_ID'')
         @ ''&secret='' @ to_string (obj_get vars ''APP_SECRET'')
         @ ''&js_code='' @ code @ ''&grant_type=authorization_code''"
  by (simp add: query_string_def obtainOpenId_request_def after_char_def)

lemma obtainTelephone_endpoint:
  "endpoint (obtainTelephone_request accessToken code openid)
     = ''https://api.weixin.qq.com/wxa/business/getuserphonenumber''"
  by (simp add: endpoint_def obtainTelephone_request_def before_char_def)

lemma obtainTelephone_query:
  "query_string (obtainTelephone_request accessToken code openid)
     = ''access_token='' @ accessToken"
  by (simp add: query_string_def obtainTelephone_request_def after_char_def)

lemma verifySession_endpoint:
  "endpoint (verifySession_request hmac openId accessToken sessionKey)
     = ''https://api.weixin.qq.com/wxa/checksession''"
  by (simp add: endpoint_def verifySession_request_def before_char_def Let_def)

lemma verifySession_query:
  "query_string (verifySession_request hmac openId accessToken sessionKey)
     = ''access_token=='' @ accessToken @ ''&openid='' @ openId @ ''&signature=''
         @ sign hmac '''' sessionKey @ ''&sig_method=hmac_sha256''"
  by (simp add: query_string_def verifySession_request_def after_char_def Let_def)

lemma fetchUser_endpoint:
  "endpoint (fetchUser_request hmac openId accessToken sessionKey)
     = ''https://api.weixin.qq.com/wxa/getuserencryptkey''"
  by (simp add: endpoint_def fetchUser_request_def before_char_def Let_def)

lemma fetchUser_query:
  "query_string (fetchUser_request hmac openId accessToken sessionKey)
     = ''access_token=='' @ accessToken @ ''&openid='' @ openId @ ''&signature=''
         @ sign hmac '''' sessionKey @ ''&sig_method=hmac_sha256''"
  by (simp add: query_string_def fetchUser_request_def after_char_def Let_def)

subsection \<open>The parameters of a request\<close>

lemma signed_query_params:
  assumes u: "query_string req
          = ''access_token=='' @ accessToken @ ''&openid='' @ openId @ ''&signature=''
              @ sign hmac '''' sessionKey @ ''&sig_method=hmac_sha256''"
    and a: "query_safe accessToken" and b: "query_safe openId"
  shows "query_params (url req) =
     [(''access_token'', ''='' @ accessToken), (''openid'', openId),
      (''signature'', sign hmac '''' sessionKey), (''sig_method'', ''hmac_sha256'')]"
proof -
  let ?sig = "sign hmac '''' sessionKey"
  let ?q = "''access_token=='' @ accessToken @ ''&openid='' @ openId @ ''&signature=''
       @ ?sig @ ''&sig_method=hmac_sha256''"
  have s: "query_safe ?sig" by (rule sign_safe)
  have "CHR ''#'' \<notin> set ?q"
    using a b s by (simp add: query_safe_def)
  then have q: "query_of (url req) = ?q"
    unfolding query_of_def u [unfolded query_string_def] by (rule before_char_none)
  have "split_on CHR ''&'' ?q =
      [''access_token=='' @ accessToken, ''openid='' @ openId, ''signature='' @ ?sig,
       ''sig_method=hmac_sha256'']"
    using a b s by (simp add: query_safe_def split_on_append split_on_none)
  then show ?thesis
    unfolding query_params_def q by (simp add: before_char_def after_char_def)
qed

lemma obtainTelephone_query_params:
  assumes "query_safe accessToken"
  shows "query_params (url (obtainTelephone_request accessToken code openid))
           = [(''access_token'', accessToken)]"
proof -
  have "CHR ''#'' \<notin> set (''access_token='' @ accessToken)"
    using assms by (simp add: query_safe_def)
  then have q: "query_of (url (obtainTelephone_request accessToken code openid))
                  = ''access_token='' @ accessToken"
    unfolding query_of_def obtainTelephone_query [unfolded query_string_def]
    by (rule before_char_none)
  have "split_on CHR ''&'' (''access_token='' @ accessToken) = [''access_token='' @ accessToken]"
    using assms by (simp add: query_safe_def split_on_none)
  then show ?thesis
    unfolding query_params_def q by (simp add: before_char_def after_char_def)
qed

subsection \<open>The configuration object\<close>

lemma VARS_APP_ID: "obj_get (VARS env) ''APP_ID'' = JUndefined"
  by (simp add: VARS_def obj_get_def)

lemma VARS_APP_SECRET: "obj_get (VARS env) ''APP_SECRET'' = JUndefined"
  by (simp add: VARS_def obj_get_def)

lemma obtainAccessToken_url_VARS:
  "url (obtainAccessToken_request (VARS env)) =
     ''https://api.weixin.qq.com/cgi-bin/token?grant_type=client_credential&appid=undefined&secret=undefined''"
  by (simp add: obtainAccessToken_request_def VARS_APP_ID VARS_APP_SECRET)

lemma obtainOpenId_url_VARS:
  "url (obtainOpenId_request (VARS env) code) =
     ''https://api.weixin.qq.com/sns/jscode2session?appid=undefined&secret=undefined&js_code=''
       @ code @ ''&grant_type=authorization_code''"
  by (simp add: obtainOpenId_request_def VARS_APP_ID VARS_APP_SECRET)

lemma obtainAccessToken_params_VARS:
  "query_params (url (obtainAccessToken_request (VARS env))) =
     [(''grant_type'', ''client_credential''), (''appid'', ''undefined''),
      (''secret'', ''undefined'')]"
  unfolding obtainAccessToken_url_VARS
  by (simp add: query_params_def query_of_def before_char_def after_char_def)

lemma obtainOpenId_params_VARS:
  "\<exists>rest. query_params (url (obtainOpenId_request (VARS env) code)) =
     (''appid'', ''undefined'') # (''secret'', ''undefined'') # rest"
  unfolding obtainOpenId_url_VARS
  by (simp add: query_params_def query_of_def before_char_def after_char_def)

section \<open>What is sent\<close>

text \<open>
  Claim C2: every call of \<open>fetchUser\<close> sends one request; its URL is the profile
  endpoint followed by \<open>access_token\<close>, \<open>openid\<close>, \<open>signature\<close> and
  \<open>sig_method=hmac_sha256\<close>, where the signature is \<open>sign('', sessionKey)\<close>, the
  hexadecimal HMAC of the empty message under the session key. When the access
  token and the open identifier contain no \<open>&\<close> and no \<open>#\<close>, these four are
  exactly the parameters the receiver reads from the query.
\<close>

theorem fetchUser_signature_in_query:
  "map url (sent (fetchUser hm hmac ax openId accessToken sessionKey))
     = [''https://api.weixin.qq.com/wxa/getuserencryptkey?access_token=='' @ accessToken
          @ ''&openid='' @ openId @ ''&signature='' @ sign hmac '''' sessionKey
          @ ''&sig_method=hmac_sha256'']
   \<and> (query_safe accessToken \<and> query_safe openId \<longrightarrow>
        map (\<lambda>req. query_params (url req))
            (sent (fetchUser hm hmac ax openId accessToken sessionKey))
          = [[(''access_token'', ''='' @ accessToken), (''openid'', openId),
              (''signature'', sign hmac '''' sessionKey), (''sig_method'', ''hmac_sha256'')]])"
proof (intro conjI impI)
  show "map url (sent (fetchUser hm hmac ax openId accessToken sessionKey))
     = [''https://api.weixin.qq.com/wxa/getuserencryptkey?access_token=='' @ accessToken
          @ ''&openid='' @ openId @ ''&signature='' @ sign hmac '''' sessionKey
          @ ''&sig_method=hmac_sha256'']"
    by (simp add: fetchUser_sent fetchUser_request_def Let_def)
next
  assume "query_safe accessToken \<and> query_safe openId"
  then have "query_params (url (fetchUser_request hmac openId accessToken sessionKey))
      = [(''access_token'', ''='' @ accessToken), (''openid'', openId),
         (''signature'', sign hmac '''' sessionKey), (''sig_method'', ''hmac_sha256'')]"
    using signed_query_params [OF fetchUser_query] by blast
  then show "map (\<lambda>req. query_params (url req))
            (sent (fetchUser hm hmac ax openId accessToken sessionKey))
          = [[(''access_token'', ''='' @ accessToken), (''openid'', openId),
              (''signature'', sign hmac '''' sessionKey), (''sig_method'', ''hmac_sha256'')]]"
    by (simp add: fetchUser_sent)
qed

text \<open>Claim C2 at \<open>fetchUser('oid-1', 'token-1', 'sk-1')\<close> with an HMAC primitive that
  returns the two bytes 4 and 171.\<close>

theorem fetchUser_signature_in_query_witness:
  "query_safe ''token-1'' \<and> query_safe ''oid-1''
   \<and> map (\<lambda>req. query_params (url req))
        (sent (fetchUser hm0 hmac0 (reject_with refused) ''oid-1'' ''token-1'' ''sk-1''))
      = [[(''access_token'', ''=token-1''), (''openid'', ''oid-1''),
          (''signature'', sign hmac0 '''' ''sk-1''), (''sig_method'', ''hmac_sha256'')]]
   \<and> sign hmac0 '''' ''sk-1'' = ''04ab''"
  using fetchUser_signature_in_query
    [where ax = "reject_with refused" and hm = hm0 and hmac = hmac0 and openId = "''oid-1''"
       and accessToken = "''token-1''" and sessionKey = "''sk-1''"]
  by (simp add: query_safe_def sign_def hmac0_def hex_byte_def hex_digit_def)

text \<open>
  Claim C4: the query string each operation sends is the template of its
  endpoint with the values interpolated as they are: \<open>access_token==\<close> (two
  \<open>=\<close>) in \<open>fetchUser\<close> and \<open>verifySession\<close>, \<open>access_token=\<close> (one \<open>=\<close>) in
  \<open>obtainTelephone\<close>, and the application identifier and secret as the
  configuration object renders them in \<open>obtainAccessToken\<close> and \<open>obtainOpenId\<close>.
\<close>

theorem query_strings_match_templates:
  "map query_string (sent (obtainAccessToken hm vars ax))
     = [''grant_type=client_credential&appid='' @ to_string (obj_get vars ''APP_ID'')
         @ ''&secret='' @ to_string (obj_get vars ''APP_SECRET'')]
   \<and> map query_string (sent (obtainOpenId hm vars ax code))
     = [''appid='' @ to_string (obj_get vars ''APP_ID'')
         @ ''&secret='' @ to_string (obj_get vars ''APP_SECRET'')
         @ ''&js_code='' @ code @ ''&grant_type=authorization_code'']
   \<and> map query_string (sent (obtainTelephone hm ax accessToken code openid))
     = [''access_token='' @ accessToken]
   \<and> map query_string (sent (fetchUser hm hmac ax openId accessToken sessionKey))
     = [''access_token=='' @ accessToken @ ''&openid='' @ openId @ ''&signature=''
         @ sign hmac '''' sessionKey @ ''&sig_method=hmac_sha256'']
   \<and> map query_string (sent (verifySession hm hmac ax openId accessToken sessionKey))
     = [''access_token=='' @ accessToken @ ''&openid='' @ openId @ ''&signature=''
         @ sign hmac '''' sessionKey @ ''&sig_method=hmac_sha256'']
   \<and> map endpoint (sent (obtainAccessToken hm vars ax))
     = [''https://api.weixin.qq.com/cgi-bin/token'']
   \<and> map endpoint (sent (obtainOpenId hm vars ax code))
     = [''https://api.weixin.qq.com/sns/jscode2session'']
   \<and> map endpoint (sent (obtainTelephone hm ax accessToken code openid))
     = [''https://api.weixin.qq.com/wxa/business/getuserphonenumber'']
   \<and> map endpoint (sent (fetchUser hm hmac ax openId accessToken sessionKey))
     = [''https://api.weixin.qq.com/wxa/getuserencryptkey'']
   \<and> map endpoint (sent (verifySession hm hmac ax openId accessToken sessionKey))
     = [''https://api.weixin.qq.com/wxa/checksession'']"
  unfolding obtainAccessToken_sent obtainOpenId_sent obtainTelephone_sent fetchUser_sent
    verifySession_sent list.map
    obtainAccessToken_query obtainOpenId_query obtainTelephone_query fetchUser_query
    verifySession_query obtainAccessToken_endpoint obtainOpenId_endpoint
    obtainTelephone_endpoint fetchUser_endpoint verifySession_endpoint
  by (intro conjI refl)

text \<open>
  Claim C6: every call of \<open>obtainTelephone\<close> sends one request: a POST to the
  phone endpoint whose query string is \<open>access_token=\<close> followed by the access
  token, and whose body is the object with the two fields \<open>code\<close> and \<open>openid\<close>.
  When the access token contains no \<open>&\<close> and no \<open>#\<close>, \<open>access_token\<close> is the one
  parameter the receiver reads from the query.
\<close>

theorem obtainTelephone_posts_code_and_openid:
  "\<exists>req. sent (obtainTelephone hm ax accessToken code openid) = [req]
     \<and> method (config req) = Some ''POST''
     \<and> endpoint req = ''https://api.weixin.qq.com/wxa/business/getuserphonenumber''
     \<and> query_string req = ''access_token='' @ accessToken
     \<and> data (config req) = Some (JObj [(''code'', JStr code), (''openid'', JStr openid)])
     \<and> headers (config req) = [(''Content-Type'', ''application/json'')]
     \<and> (query_safe accessToken \<longrightarrow> query_params (url req) = [(''access_token'', accessToken)])"
proof (intro exI conjI impI)
  show "sent (obtainTelephone hm ax accessToken code openid)
          = [obtainTelephone_request accessToken code openid]"
    by (rule obtainTelephone_sent)
  show "method (config (obtainTelephone_request accessToken code openid)) = Some ''POST''"
    by (simp add: obtainTelephone_request_def)
  show "endpoint (obtainTelephone_request accessToken code openid)
          = ''https://api.weixin.qq.com/wxa/business/getuserphonenumber''"
    by (rule obtainTelephone_endpoint)
  show "query_string (obtainTelephone_request accessToken code openid)
          = ''access_token='' @ accessToken"
    by (rule obtainTelephone_query)
  show "data (config (obtainTelephone_request accessToken code openid))
          = Some (JObj [(''code'', JStr code), (''openid'', JStr openid)])"
    by (simp add: obtainTelephone_request_def)
  show "headers (config (obtainTelephone_request accessToken code openid))
          = [(''Content-Type'', ''application/json'')]"
    by (simp add: obtainTelephone_request_def json_headers_def)
  show "query_params (url (obtainTelephone_request accessToken code openid))
          = [(''access_token'', accessToken)]" if "query_safe accessToken"
    using that by (rule obtainTelephone_query_params)
qed

text \<open>Claim C6 at \<open>obtainTelephone('token-1', 'test-code', 'oid-1')\<close>.\<close>

theorem obtainTelephone_posts_code_and_openid_witness:
  "query_safe ''token-1''
   \<and> sent (obtainTelephone hm0 (reject_with refused) ''token-1'' ''test-code'' ''oid-1'')
       = [\<lparr>url = ''https://api.weixin.qq.com/wxa/business/getuserphonenumber?access_token=token-1'',
           config = \<lparr>method = Some ''POST'',
                     data = Some (JObj [(''code'', JStr ''test-code''),
                                        (''openid'', JStr ''oid-1'')]),
                     headers = [(''Content-Type'', ''application/json'')]\<rparr>\<rparr>]
   \<and> query_params
         ''https://api.weixin.qq.com/wxa/business/getuserphonenumber?access_token=token-1''
       = [(''access_token'', ''token-1'')]"
proof -
  obtain req
    where r: "sent (obtainTelephone hm0 (reject_with refused) ''token-1'' ''test-code'' ''oid-1'')
                = [req]"
      and q: "query_safe ''token-1'' \<longrightarrow> query_params (url req) = [(''access_token'', ''token-1'')]"
    using obtainTelephone_posts_code_and_openid
      [of hm0 "reject_with refused" "''token-1''" "''test-code''" "''oid-1''"]
    by blast
  have s: "query_safe ''token-1''" by (simp add: query_safe_def)
  have "req = obtainTelephone_request ''token-1'' ''test-code'' ''oid-1''"
    using r by (simp add: obtainTelephone_sent)
  with r q s show ?thesis
    by (simp add: obtainTelephone_request_def json_headers_def)
qed

text \<open>
  Claim C8, as stated, fails in its parenthesis: the configuration object does
  not hold \<open>IOT_*\<close> variables only. With an empty environment its first field
  is \<open>APP_CONTEXT\<close>, the empty string, and that name does not start with
  \<open>IOT_\<close>.
\<close>

theorem only_IOT_variables_counterexample:
  "map_of (VARS no_env) ''APP_CONTEXT'' = Some (JStr '''')
   \<and> \<not> is_IOT_variable ''APP_CONTEXT''
   \<and> \<not> list_all is_IOT_variable (map fst (VARS no_env))"
  by (simp add: VARS_def is_IOT_variable_def)

text \<open>
  Claim C8, amended: the configuration object has the fields \<open>APP_CONTEXT\<close>,
  \<open>IOT_API_ENDPOINT\<close>, \<open>IOT_CLIENT_ID\<close> and \<open>IOT_CLIENT_SECRET\<close> and no others,
  whatever the environment; so \<open>VARS.APP_ID\<close> and \<open>VARS.APP_SECRET\<close> are
  \<open>undefined\<close>, and every call of \<open>obtainAccessToken\<close> and of \<open>obtainOpenId\<close>
  sends a URL whose \<open>appid\<close> and \<open>secret\<close> parameters are the text \<open>undefined\<close>.
\<close>

theorem app_credentials_undefined:
  "map fst (VARS env)
     = [''APP_CONTEXT'', ''IOT_API_ENDPOINT'', ''IOT_CLIENT_ID'', ''IOT_CLIENT_SECRET'']
   \<and> obj_get (VARS env) ''APP_ID'' = JUndefined
   \<and> obj_get (VARS env) ''APP_SECRET'' = JUndefined
   \<and> to_string JUndefined = ''undefined''
   \<and> map url (sent (obtainAccessToken hm (VARS env) ax))
       = [''https://api.weixin.qq.com/cgi-bin/token?grant_type=client_credential&appid=undefined&secret=undefined'']
   \<and> map url (sent (obtainOpenId hm (VARS env) ax code))
       = [''https://api.weixin.qq.com/sns/jscode2session?appid=undefined&secret=undefined&js_code=''
            @ code @ ''&grant_type=authorization_code'']
   \<and> map_of (query_params (url (obtainAccessToken_request (VARS env)))) ''appid''
       = Some ''undefined''
   \<and> map_of (query_params (url (obtainAccessToken_request (VARS env)))) ''secret''
       = Some ''undefined''
   \<and> map_of (query_params (url (obtainOpenId_request (VARS env) code))) ''appid''
       = Some ''undefined''
   \<and> map_of (query_params (url (obtainOpenId_request (VARS env) code))) ''secret''
       = Some ''undefined''"
proof -
  obtain rest where r: "query_params (url (obtainOpenId_request (VARS env) code)) =
     (''appid'', ''undefined'') # (''secret'', ''undefined'') # rest"
    using obtainOpenId_params_VARS by blast
  show ?thesis
    unfolding r obtainAccessToken_params_VARS obtainAccessToken_sent obtainOpenId_sent
    by (simp add: VARS_APP_ID VARS_APP_SECRET obtainAccessToken_url_VARS obtainOpenId_url_VARS)
      (simp add: VARS_def)
qed

end
